theory Spec2Isabelle
  imports Complex_Main "HOL-Library.Sublist" "HOL-Library.Word"
begin

section \<open>Errors\<close>

text \<open>
  Every failure of a request handler is a raised exception. The handlers raise
  \<open>HTTPException(status_code, detail)\<close>; the only other exception that the modelled
  code can raise by itself is Python's \<open>TypeError\<close> (\<open>re.search\<close> on \<open>None\<close>).
  A handler returns \<open>error + 'a\<close>, with \<open>Inl\<close> for the raised exception.

  The store is a record of tables, each table a list of rows in storage order. Its
  schema is reflected from the live database and is not part of the source, so what
  the store accepts at a commit cannot be read from the code. Queries of the model
  always succeed. For \<open>crud.update\<close> the verdict of the store on a commit is a
  parameter, and the \<open>except\<close> branch of the source is a branch of the model; the
  inserts and the deletion of a like are modelled on a store that accepts them.

  \<open>sqlalchemy_error\<close> is what the database layer raises: an \<open>IntegrityError\<close> with
  its text, \<open>NoResultFound\<close>, or another \<open>SQLAlchemyError\<close>. \<open>Raised e\<close> is such an
  exception re-raised to the caller as it is.
\<close>

datatype sqlalchemy_error = IntegrityError string | NoResultFound | SQLAlchemyError

datatype error =
  HTTPException (status_code: int) (detail: string) | TypeError | Raised sqlalchemy_error

section \<open>Data model\<close>

text \<open>\<open>models.TouristUser\<close> and \<open>schemas.TouristUser\<close> carry the same fields.\<close>

record tourist_user =
  tu_id :: int
  tu_name :: string
  tu_surname :: string
  tu_email :: string
  tu_password :: string
  tu_telephone :: string
  tu_img_profile :: string
  tu_state_id :: int

text \<open>\<open>schemas.TouristUserCreate\<close>\<close>

record tourist_user_create =
  tc_name :: string
  tc_surname :: string
  tc_email :: string
  tc_img_profile :: string
  tc_state_id :: int
  tc_telephone :: string
  tc_password :: string

text \<open>\<open>models.HostUser\<close> and \<open>schemas.HostUser\<close>\<close>

record host_user =
  hu_id :: int
  hu_name :: string
  hu_email :: string
  hu_password :: string
  hu_img_profile :: string
  hu_state_id :: int

text \<open>
  \<open>schemas.ExperienceBase\<close>: the price is a dictionary (here an association list), the
  duration a \<open>datetime.time\<close> (hour, minute, second).
\<close>

record experience_base =
  eb_title :: string
  eb_description :: string
  eb_difficulty_id :: int
  eb_price :: "(string \<times> int) list"
  eb_duration :: "nat \<times> nat \<times> nat"
  eb_img_preview_path :: string
  eb_img_paths :: "string list"
  eb_state_id :: int

text \<open>\<open>models.Experiences\<close> and \<open>schemas.Experience\<close>\<close>

record experience =
  exp_id :: int
  exp_title :: string
  exp_description :: string
  exp_difficulty_id :: int
  exp_price :: "(string \<times> int) list"
  exp_duration :: "nat \<times> nat \<times> nat"
  exp_img_preview_path :: string
  exp_img_paths :: "string list"
  exp_state_id :: int

text \<open>\<open>schemas.DiscoveryBase\<close>; \<open>coordinate_gps\<close> is \<open>Optional[str]\<close>.\<close>

record discovery_base =
  dbase_title :: string
  dbase_description :: string
  dbase_img_preview_path :: string
  dbase_img_paths :: "string list"
  dbase_video_paths :: "string list"
  dbase_coordinate_gps :: "string option"
  dbase_address :: string
  dbase_kind_id :: int
  dbase_state_id :: int

text \<open>
  \<open>models.Discovery\<close>. The column \<open>coordinate_gps\<close> holds the value the code assigned
  to it, a point literal. A query does not return that text: it returns the geography
  value as the hexadecimal text of its binary encoding. This conversion of the
  database is a parameter of the handler that reads the column.
\<close>

record discovery =
  dis_id :: int
  dis_title :: string
  dis_description :: string
  dis_img_preview_path :: string
  dis_img_paths :: "string list"
  dis_video_paths :: "string list"
  dis_coordinate_gps :: string
  dis_address :: string
  dis_kind_id :: int
  dis_state_id :: int

text \<open>\<open>models.TouristUserLikes\<close>\<close>

record tourist_user_like =
  like_tourist_user_id :: int
  like_experience_id :: int

text \<open>The tables of \<open>models.py\<close>.\<close>

record database =
  tourist_users :: "tourist_user list"
  host_users :: "host_user list"
  experiences :: "experience list"
  discoveries :: "discovery list"
  tourist_user_likes :: "tourist_user_like list"

text \<open>\<open>schemas.ExperienceResponse\<close>\<close>

record experience_response =
  resp_cursor :: "int option"
  resp_has_more :: bool
  resp_items :: "experience list"

section \<open>Entity access layer: reads (\<open>crud.py\<close>)\<close>

text \<open>\<open>query.filter(...).first()\<close> is the first matching row, or \<open>None\<close>.\<close>

definition crud_get_tourist_user :: "database \<Rightarrow> int \<Rightarrow> tourist_user option" where
  "crud_get_tourist_user db user_id = find (\<lambda>u. tu_id u = user_id) (tourist_users db)"

definition crud_get_tourist_user_by_email :: "database \<Rightarrow> string \<Rightarrow> tourist_user option" where
  "crud_get_tourist_user_by_email db email = find (\<lambda>u. tu_email u = email) (tourist_users db)"

definition crud_get_host_user :: "database \<Rightarrow> int \<Rightarrow> host_user option" where
  "crud_get_host_user db user_id = find (\<lambda>u. hu_id u = user_id) (host_users db)"

definition crud_get_experience :: "database \<Rightarrow> int \<Rightarrow> experience option" where
  "crud_get_experience db experience_id =
     find (\<lambda>e. exp_id e = experience_id) (experiences db)"

definition crud_get_discovery :: "database \<Rightarrow> int \<Rightarrow> discovery option" where
  "crud_get_discovery db discovery_id =
     find (\<lambda>d. dis_id d = discovery_id) (discoveries db)"

text \<open>
  \<open>crud.get_experiences\<close>: \<open>filter(state_id == 1).order_by(id)[.offset(cursor)].limit(limit + 1).all()\<close>.
  The endpoint declares \<open>cursor\<close> as \<open>Query(None, ge=0)\<close> and \<open>limit\<close> as
  \<open>Query(20, gt=0)\<close>, so both are natural numbers here (the theorems assume
  \<open>0 < limit\<close> where it matters).
\<close>

definition crud_get_experiences :: "database \<Rightarrow> nat option \<Rightarrow> nat \<Rightarrow> experience list" where
  "crud_get_experiences db cur limit =
     (case cur of
        None \<Rightarrow>
          take (limit + 1)
            (sort_key exp_id (filter (\<lambda>e. exp_state_id e = 1) (experiences db)))
      | Some c \<Rightarrow>
          take (limit + 1)
            (drop c
              (sort_key exp_id (filter (\<lambda>e. exp_state_id e = 1) (experiences db)))))"

text \<open>\<open>crud.get_discoveries\<close>\<close>

definition crud_get_discoveries ::
  "database \<Rightarrow> nat option \<Rightarrow> nat \<Rightarrow> int \<Rightarrow> bool \<Rightarrow> discovery list" where
  "crud_get_discoveries db cur limit category all =
     (let list_category = (if \<not> all then [category] else [1, 2, 3, 4])
      in case cur of
           None \<Rightarrow>
             take (limit + 1)
               (sort_key dis_id
                 (filter (\<lambda>d. dis_state_id d = 1 \<and> dis_kind_id d \<in> set list_category)
                   (discoveries db)))
         | Some c \<Rightarrow>
             take (limit + 1)
               (drop c
                 (sort_key dis_id
                   (filter (\<lambda>d. dis_state_id d = 1 \<and> dis_kind_id d \<in> set list_category)
                     (discoveries db)))))"

section \<open>Cursor pagination (\<open>experiences_api.get_experiences\<close>)\<close>

text \<open>
  \<open>experiences[:limit]\<close> is \<open>take limit\<close>; \<open>experiences[-1]\<close> is only read when the
  truncated list is not empty.
\<close>

definition get_experiences :: "database \<Rightarrow> nat option \<Rightarrow> nat \<Rightarrow> error + experience_response" where
  "get_experiences db cur limit =
     (let experiences0 = crud_get_experiences db cur limit
      in if experiences0 \<noteq> [] then
           (let has_more = (length experiences0 > limit);
                experiences1 = take limit experiences0
            in Inr \<lparr> resp_cursor =
                       (if experiences1 \<noteq> [] then Some (exp_id (last experiences1)) else None),
                     resp_has_more = has_more,
                     resp_items = experiences1 \<rparr>)
         else Inl (HTTPException 404 ''No experiences found.''))"

section \<open>Entity access layer: writes (\<open>crud.py\<close>)\<close>

text \<open>
  Modelled from the spec: "identity = integer id assigned at creation". The sequence
  that assigns it belongs to the database schema, which is not part of the source;
  the model takes the successor of the largest id in the table (1 in an empty table).
\<close>

definition new_id :: "int list \<Rightarrow> int" where
  "new_id ids = fold max ids 0 + 1"

text \<open>
  \<open>db.add(row); db.commit(); db.refresh(row); return True\<close>. The row object is built
  by the caller without an id; the insert assigns it.
\<close>

definition crud_create_tourist_user :: "database \<Rightarrow> tourist_user \<Rightarrow> bool \<times> database" where
  "crud_create_tourist_user db tourist_user =
     (True, db\<lparr> tourist_users := tourist_users db
                  @ [tourist_user\<lparr> tu_id := new_id (map tu_id (tourist_users db)) \<rparr>] \<rparr>)"

definition crud_create_experience :: "database \<Rightarrow> experience \<Rightarrow> bool \<times> database" where
  "crud_create_experience db new_experience =
     (True, db\<lparr> experiences := experiences db
                  @ [new_experience\<lparr> exp_id := new_id (map exp_id (experiences db)) \<rparr>] \<rparr>)"

definition crud_create_discovery :: "database \<Rightarrow> discovery \<Rightarrow> bool \<times> database" where
  "crud_create_discovery db new_discovery =
     (True, db\<lparr> discoveries := discoveries db
                  @ [new_discovery\<lparr> dis_id := new_id (map dis_id (discoveries db)) \<rparr>] \<rparr>)"

text \<open>
  \<open>CustomExceptionsClass.handle\<close> (\<open>exception.py\<close>): after the rollback, a duplicate
  key becomes an \<open>HTTPException\<close> with status 400, \<open>NoResultFound\<close> another one, and
  every other error of the database is raised again as it is. Python's
  \<open>"..." in str(self.error)\<close> is \<open>sublist\<close>.
\<close>

definition handle :: "sqlalchemy_error \<Rightarrow> error" where
  "handle e =
     (case e of
        IntegrityError msg \<Rightarrow>
          if sublist ''duplicate key value violates unique constraint'' msg
          then HTTPException 400
                 ''Value already registered. (Value can be an email a title or a popup message text).''
          else Raised e
      | NoResultFound \<Rightarrow> HTTPException 400 ''Experience id not existing.''
      | SQLAlchemyError \<Rightarrow> Raised e)"

text \<open>
  \<open>crud.update\<close>: \<open>db.merge\<close> of each row that is passed, then \<open>db.commit()\<close>. A merged
  row replaces the stored row of the same id. \<open>commit_error\<close> is the verdict of the
  store on the state to be committed: \<open>None\<close> when it accepts it, the error it raises
  otherwise. In the \<open>except\<close> branch the transaction is rolled back, so no new store
  is returned, and \<open>handle\<close> raises. (The \<open>popup_msg\<close> argument is not modelled: no
  popup table is needed here.)
\<close>

definition crud_update ::
  "(database \<Rightarrow> sqlalchemy_error option) \<Rightarrow> database \<Rightarrow> tourist_user option
     \<Rightarrow> host_user option \<Rightarrow> error + bool \<times> database" where
  "crud_update commit_error db tourist_user host_user =
     (let db1 = (case tourist_user of
                   Some t \<Rightarrow> db\<lparr> tourist_users :=
                               map (\<lambda>u. if tu_id u = tu_id t then t else u) (tourist_users db) \<rparr>
                 | None \<Rightarrow> db);
          db2 = (case host_user of
                   Some h \<Rightarrow> db1\<lparr> host_users :=
                               map (\<lambda>u. if hu_id u = hu_id h then h else u) (host_users db1) \<rparr>
                 | None \<Rightarrow> db1)
      in case commit_error db2 of
           None \<Rightarrow> Inr (True, db2)
         | Some e \<Rightarrow> Inl (handle e))"

text \<open>
  A row loaded through the session is a live object: the attribute assignments the
  handler makes on it are written to the table by the next \<open>db.commit()\<close>. In the model
  rows are values, so the write-back of a changed discovery row is explicit.
\<close>

definition flush_discovery :: "database \<Rightarrow> discovery \<Rightarrow> database" where
  "flush_discovery db row =
     db\<lparr> discoveries := map (\<lambda>d. if dis_id d = dis_id row then row else d) (discoveries db) \<rparr>"

text \<open>\<open>crud.get_like\<close>, \<open>crud.create_like\<close>, \<open>crud.delete_like\<close>\<close>

definition crud_get_like :: "database \<Rightarrow> int \<Rightarrow> int \<Rightarrow> tourist_user_like option" where
  "crud_get_like db user_id experience_id =
     find (\<lambda>l. like_tourist_user_id l = user_id \<and> like_experience_id l = experience_id)
       (tourist_user_likes db)"

definition crud_create_like :: "database \<Rightarrow> tourist_user_like \<Rightarrow> bool \<times> database" where
  "crud_create_like db new_like =
     (True, db\<lparr> tourist_user_likes := tourist_user_likes db @ [new_like] \<rparr>)"

text \<open>\<open>db.delete(like_to_remove)\<close> deletes the one row that was loaded.\<close>

definition crud_delete_like :: "database \<Rightarrow> tourist_user_like \<Rightarrow> bool \<times> database" where
  "crud_delete_like db like_to_remove =
     (True, db\<lparr> tourist_user_likes := remove1 like_to_remove (tourist_user_likes db) \<rparr>)"

section \<open>Authorization (\<open>utility/authentication_data.py\<close>, \<open>tourist_api.py\<close>, \<open>host_api.py\<close>)\<close>

text \<open>
  The token payload as \<open>create_jwt\<close> is given it in the signin handlers:
  \<open>{"user_id": id, "role": ...}\<close>.

  \<open>admin_api.is_jwt_valid\<close> and \<open>admin_api.create_jwt\<close> are not part of the source at
  hand; they are parameters of the handlers that call them. \<open>is_jwt_valid token\<close> is
  \<open>None\<close> when the call returns a falsy value.
\<close>

record token_payload =
  tp_user_id :: int
  tp_role :: string

text \<open>\<open>Authentication.roles\<close>\<close>

definition roles :: "string list" where
  "roles = [''Admin'', ''Host'', ''Tourist'']"

definition get_tourist_host_priviledge ::
  "(string \<Rightarrow> token_payload option) \<Rightarrow> string \<Rightarrow> error + bool" where
  "get_tourist_host_priviledge is_jwt_valid token =
     (case is_jwt_valid token of
        Some payload_token \<Rightarrow>
          if tp_role payload_token = roles ! 1 \<or> tp_role payload_token = roles ! 2
          then Inr True
          else Inl (HTTPException 401 ''Unauthorized user.'')
      | None \<Rightarrow> Inl (HTTPException 401 ''Incorrect token''))"

definition get_admin_priviledge ::
  "(string \<Rightarrow> token_payload option) \<Rightarrow> string \<Rightarrow> error + bool" where
  "get_admin_priviledge is_jwt_valid token =
     (case is_jwt_valid token of
        Some payload_token \<Rightarrow>
          if tp_role payload_token = roles ! 0
          then Inr True
          else Inl (HTTPException 401 ''Unauthorized user.'')
      | None \<Rightarrow> Inl (HTTPException 401 ''Incorrect token''))"

definition get_tourist_host_admin_priviledge ::
  "(string \<Rightarrow> token_payload option) \<Rightarrow> string \<Rightarrow> error + string" where
  "get_tourist_host_admin_priviledge is_jwt_valid token =
     (case is_jwt_valid token of
        Some payload_token \<Rightarrow>
          if tp_role payload_token = roles ! 0 \<or> tp_role payload_token = roles ! 1
             \<or> tp_role payload_token = roles ! 2
          then Inr (tp_role payload_token)
          else Inl (HTTPException 401 ''Unauthorized user.'')
      | None \<Rightarrow> Inl (HTTPException 401 ''Incorrect token''))"

text \<open>\<open>tourist_api.get_current_tourist\<close>\<close>

definition get_current_tourist ::
  "(string \<Rightarrow> token_payload option) \<Rightarrow> database \<Rightarrow> string \<Rightarrow> error + tourist_user" where
  "get_current_tourist is_jwt_valid db token =
     (case is_jwt_valid token of
        Some payload_token \<Rightarrow>
          if tp_role payload_token = roles ! 2 then
            (case crud_get_tourist_user db (tp_user_id payload_token) of
               None \<Rightarrow> Inl (HTTPException 404 ''Tourist not found'')
             | Some db_tourist_user \<Rightarrow>
                 if tu_state_id db_tourist_user = 1 then Inr db_tourist_user
                 else Inl (HTTPException 401 ''This user has been deactivated.''))
          else Inl (HTTPException 401 ''Unauthorized user.'')
      | None \<Rightarrow> Inl (HTTPException 401 ''Incorrect token''))"

text \<open>\<open>host_api.get_current_host\<close>\<close>

definition get_current_host ::
  "(string \<Rightarrow> token_payload option) \<Rightarrow> database \<Rightarrow> string \<Rightarrow> error + host_user" where
  "get_current_host is_jwt_valid db token =
     (case is_jwt_valid token of
        Some payload_token \<Rightarrow>
          if tp_role payload_token = roles ! 1 then
            (case crud_get_host_user db (tp_user_id payload_token) of
               None \<Rightarrow> Inl (HTTPException 404 ''Host not found'')
             | Some db_host_user \<Rightarrow>
                 if hu_state_id db_host_user = 1 then Inr db_host_user
                 else Inl (HTTPException 401 ''This user has been deactivated.''))
          else Inl (HTTPException 401 ''Unauthorized user.'')
      | None \<Rightarrow> Inl (HTTPException 401 ''Incorrect token''))"

section \<open>Create handlers\<close>

text \<open>
  \<open>encryption.hash_password\<close> is bcrypt with a fresh salt and
  \<open>encryption.check_password\<close> its verification; both are parameters.

  \<open>tourist_api.register_me\<close>: the guard on \<open>state_id\<close>, then the insert. The handler
  returns \<open>{"result": True}\<close>; the model returns the result with the new store.
\<close>

definition register_me ::
  "(string \<Rightarrow> string) \<Rightarrow> database \<Rightarrow> tourist_user_create \<Rightarrow> error + bool \<times> database" where
  "register_me hash_password db tourist_user =
     (if tc_state_id tourist_user < 0 \<or> tc_state_id tourist_user > 2
      then Inl (HTTPException 400 ''state_id must be either 1 or 2.'')
      else
        (let encrypted_password = hash_password (tc_password tourist_user);
             new_tourist_user =
               \<lparr> tu_id = 0,
                 tu_name = tc_name tourist_user,
                 tu_surname = tc_surname tourist_user,
                 tu_email = tc_email tourist_user,
                 tu_password = encrypted_password,
                 tu_telephone = tc_telephone tourist_user,
                 tu_img_profile = tc_img_profile tourist_user,
                 tu_state_id = tc_state_id tourist_user \<rparr>
         in Inr (crud_create_tourist_user db new_tourist_user)))"

text \<open>\<open>experiences_api.create\<close>\<close>

definition experience_create :: "database \<Rightarrow> experience_base \<Rightarrow> error + bool \<times> database" where
  "experience_create db experience =
     (if eb_state_id experience < 0 \<or> eb_state_id experience > 2
      then Inl (HTTPException 400 ''state_id must be either 1 or 2.'')
      else
        (let new_experience =
               \<lparr> exp_id = 0,
                 exp_title = eb_title experience,
                 exp_description = eb_description experience,
                 exp_difficulty_id = eb_difficulty_id experience,
                 exp_price = eb_price experience,
                 exp_duration = eb_duration experience,
                 exp_img_preview_path = eb_img_preview_path experience,
                 exp_img_paths = eb_img_paths experience,
                 exp_state_id = eb_state_id experience \<rparr>
         in Inr (crud_create_experience db new_experience)))"

text \<open>
  \<open>discovery_api.create\<close>. The f-string \<open>f"POINT ({discovery.coordinate_gps})"\<close> renders
  an absent coordinate as the text \<open>None\<close>.
\<close>

definition discovery_create :: "database \<Rightarrow> discovery_base \<Rightarrow> error + bool \<times> database" where
  "discovery_create db discovery =
     (if dbase_state_id discovery < 0 \<or> dbase_state_id discovery > 2
      then Inl (HTTPException 400 ''state_id must be either 1 or 2.'')
      else
        (let coordinate_gps =
               ''POINT ('' @ (case dbase_coordinate_gps discovery of
                                Some s \<Rightarrow> s | None \<Rightarrow> ''None'') @ '')'';
             new_discovery =
               \<lparr> dis_id = 0,
                 dis_title = dbase_title discovery,
                 dis_description = dbase_description discovery,
                 dis_img_preview_path = dbase_img_preview_path discovery,
                 dis_img_paths = dbase_img_paths discovery,
                 dis_video_paths = dbase_video_paths discovery,
                 dis_coordinate_gps = coordinate_gps,
                 dis_address = dbase_address discovery,
                 dis_kind_id = dbase_kind_id discovery,
                 dis_state_id = dbase_state_id discovery \<rparr>
         in Inr (crud_create_discovery db new_discovery)))"

section \<open>Partial updates\<close>

text \<open>
  The assignments of \<open>tourist_api.update_my_info\<close>, in the order of the source. A
  string is truthy when it is not empty; \<open>new_state_id\<close> defaults to \<open>None\<close> and is
  truthy when it is a number other than 0.
\<close>

definition update_my_info_fields ::
  "tourist_user \<Rightarrow> string \<Rightarrow> string \<Rightarrow> string \<Rightarrow> string \<Rightarrow> int option \<Rightarrow> string
     \<Rightarrow> tourist_user" where
  "update_my_info_fields db_tourist_user new_name new_surname new_email new_img_profile
       new_state_id new_telephone =
     (let u1 = (if new_name \<noteq> [] then db_tourist_user\<lparr> tu_name := new_name \<rparr>
                else db_tourist_user);
          u2 = (if new_surname \<noteq> [] then u1\<lparr> tu_surname := new_surname \<rparr> else u1);
          u3 = (if new_email \<noteq> [] then u2\<lparr> tu_email := new_email \<rparr> else u2);
          u4 = (if new_img_profile \<noteq> [] then u3\<lparr> tu_img_profile := new_img_profile \<rparr> else u3);
          u5 = (case new_state_id of
                  Some n \<Rightarrow> if n \<noteq> 0 then u4\<lparr> tu_state_id := n \<rparr> else u4
                | None \<Rightarrow> u4);
          u6 = (if new_telephone \<noteq> [] then u5\<lparr> tu_telephone := new_telephone \<rparr> else u5)
      in u6)"

text \<open>\<open>tourist_api.update_my_info\<close>; \<open>tourist_user\<close> is the identity the evaluator returned.\<close>

definition update_my_info ::
  "(database \<Rightarrow> sqlalchemy_error option) \<Rightarrow> database \<Rightarrow> tourist_user \<Rightarrow> string \<Rightarrow> string
     \<Rightarrow> string \<Rightarrow> string \<Rightarrow> int option \<Rightarrow> string \<Rightarrow> error + bool \<times> database" where
  "update_my_info commit_error db tourist_user new_name new_surname new_email new_img_profile
       new_state_id new_telephone =
     (case crud_get_tourist_user db (tu_id tourist_user) of
        Some db_tourist_user \<Rightarrow>
          crud_update commit_error db
            (Some (update_my_info_fields db_tourist_user new_name new_surname new_email
                     new_img_profile new_state_id new_telephone))
            None
      | None \<Rightarrow> Inl (HTTPException 404 ''Tourist not found''))"

text \<open>
  The assignments of \<open>discovery_api.update\<close>, in the order of the source. The third
  one reads \<open>discovery.video_paths = discovery.video_paths\<close>: it assigns the stored
  value to itself. No assignment mentions \<open>address\<close>.
\<close>

definition discovery_update_fields :: "discovery \<Rightarrow> discovery_base \<Rightarrow> discovery" where
  "discovery_update_fields discovery discovery_data =
     (let d1 = (if dbase_title discovery_data \<noteq> []
                then discovery\<lparr> dis_title := dbase_title discovery_data \<rparr> else discovery);
          d2 = (if dbase_description discovery_data \<noteq> []
                then d1\<lparr> dis_description := dbase_description discovery_data \<rparr> else d1);
          d3 = (if dbase_video_paths discovery_data \<noteq> []
                then d2\<lparr> dis_video_paths := dis_video_paths d2 \<rparr> else d2);
          d4 = (case dbase_coordinate_gps discovery_data of
                  Some s \<Rightarrow>
                    if s \<noteq> [] then d3\<lparr> dis_coordinate_gps := ''POINT ('' @ s @ '')'' \<rparr> else d3
                | None \<Rightarrow> d3);
          d5 = (if dbase_img_preview_path discovery_data \<noteq> []
                then d4\<lparr> dis_img_preview_path := dbase_img_preview_path discovery_data \<rparr>
                else d4);
          d6 = (if dbase_img_paths discovery_data \<noteq> []
                then d5\<lparr> dis_img_paths := dbase_img_paths discovery_data \<rparr> else d5);
          d7 = (if dbase_state_id discovery_data \<noteq> 0
                then d6\<lparr> dis_state_id := dbase_state_id discovery_data \<rparr> else d6);
          d8 = (if dbase_kind_id discovery_data \<noteq> 0
                then d7\<lparr> dis_kind_id := dbase_kind_id discovery_data \<rparr> else d7)
      in d8)"

text \<open>\<open>discovery_api.update\<close>: the changed row is written by the commit of \<open>crud.update(db)\<close>.\<close>

definition discovery_update ::
  "(database \<Rightarrow> sqlalchemy_error option) \<Rightarrow> database \<Rightarrow> int \<Rightarrow> discovery_base
     \<Rightarrow> error + bool \<times> database" where
  "discovery_update commit_error db discovery_id discovery_data =
     (case crud_get_discovery db discovery_id of
        Some discovery \<Rightarrow>
          crud_update commit_error
            (flush_discovery db (discovery_update_fields discovery discovery_data))
            None None
      | None \<Rightarrow> Inl (HTTPException 404 ''Discovery not found''))"

section \<open>Tourist signin\<close>

text \<open>\<open>admin_api.Token\<close>\<close>

record token =
  access_token :: string
  token_type :: string

text \<open>
  \<open>tourist_api.authenticate_tourist\<close>: with a known email and a password that does not
  verify, the function falls off its end and returns \<open>None\<close>.
\<close>

definition authenticate_tourist ::
  "(string \<Rightarrow> string \<Rightarrow> bool) \<Rightarrow> database \<Rightarrow> string \<Rightarrow> string \<Rightarrow> error + int option" where
  "authenticate_tourist check_password db email password =
     (case crud_get_tourist_user_by_email db email of
        Some tourist \<Rightarrow>
          if check_password password (tu_password tourist) then Inr (Some (tu_id tourist))
          else Inr None
      | None \<Rightarrow> Inl (HTTPException 404 (''User doesn'' @ [CHR 0x27] @ ''t exist-'')))"

text \<open>\<open>tourist_api.signin\<close>; \<open>if id:\<close> holds for a number other than 0.\<close>

definition signin ::
  "(string \<Rightarrow> string \<Rightarrow> bool) \<Rightarrow> (token_payload \<Rightarrow> string) \<Rightarrow> database \<Rightarrow> string \<Rightarrow> string
     \<Rightarrow> error + token" where
  "signin check_password create_jwt db email password =
     (case authenticate_tourist check_password db email password of
        Inl e \<Rightarrow> Inl e
      | Inr id0 \<Rightarrow>
          (case id0 of
             Some i \<Rightarrow>
               if i \<noteq> 0 then
                 Inr \<lparr> access_token = create_jwt \<lparr> tp_user_id = i, tp_role = roles ! 2 \<rparr>,
                       token_type = ''bearer'' \<rparr>
               else Inl (HTTPException 401 ''Incorrect username or password'')
           | None \<Rightarrow> Inl (HTTPException 401 ''Incorrect username or password'')))"

section \<open>Likes\<close>

text \<open>
  \<open>tourist_api.toggle_like\<close>; \<open>me\<close> is the identity the evaluator returned. Both
  \<open>crud.delete_like\<close> and \<open>crud.create_like\<close> return \<open>True\<close>.
\<close>

definition toggle_like :: "database \<Rightarrow> tourist_user \<Rightarrow> int \<Rightarrow> error + bool \<times> database" where
  "toggle_like db me experience_id =
     (case crud_get_experience db experience_id of
        Some is_experience_existing \<Rightarrow>
          (case crud_get_like db (tu_id me) experience_id of
             Some already_liked \<Rightarrow> Inr (False, snd (crud_delete_like db already_liked))
           | None \<Rightarrow>
               (let new_like = \<lparr> like_tourist_user_id = tu_id me,
                                 like_experience_id = experience_id \<rparr>
                in Inr (True, snd (crud_create_like db new_like))))
      | None \<Rightarrow> Inl (HTTPException 404 ''Experience not found.''))"

section \<open>Geo coordinate codec (\<open>schemas.ewkb_to_wkt\<close>, \<open>discovery_api.extract_coordinates\<close>)\<close>

text \<open>
  \<open>binascii.unhexlify\<close> on a text: two hexadecimal digits (either case) per byte;
  an odd length or any other character raises \<open>binascii.Error\<close> (here \<open>None\<close>).
\<close>

definition hex_digit :: "char \<Rightarrow> nat option" where
  "hex_digit c =
     (let n = (of_char c :: nat)
      in if 48 \<le> n \<and> n \<le> 57 then Some (n - 48)
         else if 97 \<le> n \<and> n \<le> 102 then Some (n - 87)
         else if 65 \<le> n \<and> n \<le> 70 then Some (n - 55)
         else None)"

fun unhexlify :: "string \<Rightarrow> 8 word list option" where
  "unhexlify [] = Some []"
| "unhexlify [c] = None"
| "unhexlify (a # b # cs) =
     (case hex_digit a of
        None \<Rightarrow> None
      | Some h \<Rightarrow>
          (case hex_digit b of
             None \<Rightarrow> None
           | Some l \<Rightarrow>
               (case unhexlify cs of
                  None \<Rightarrow> None
                | Some bs \<Rightarrow> Some (of_nat (16 * h + l) # bs))))"

text \<open>
  \<open>schemas.ewkb_to_wkt\<close>. The parser of the geometry library is a parameter:
  \<open>loads_wkt bytes\<close> is the well-known text \<open>loads(bytes).wkt\<close>, and \<open>None\<close> when
  \<open>loads\<close> raises or the geometry it returns is falsy. Every exception is caught and
  printed, after which the function ends without a \<open>return\<close>: its value is Python's
  \<open>None\<close>, as it is when \<open>if a:\<close> fails.
\<close>

definition ewkb_to_wkt :: "(8 word list \<Rightarrow> string option) \<Rightarrow> string \<Rightarrow> string option" where
  "ewkb_to_wkt loads_wkt geom_hex =
     (case unhexlify geom_hex of
        None \<Rightarrow> None
      | Some geom_bytes \<Rightarrow> loads_wkt geom_bytes)"

text \<open>
  \<open>re.search(r"\(([^)]+)\)", point_str)\<close> and \<open>match.group(1)\<close>: the leftmost \<open>(\<close> that
  is followed by one or more characters other than \<open>)\<close> and then by \<open>)\<close>; the group is
  that run of characters. The run is greedy and cannot contain \<open>)\<close>, so at a given
  \<open>(\<close> it is the longest run of characters other than \<open>)\<close>, and the match succeeds
  there iff that run is not empty and the text does not end with it.
\<close>

fun re_search_group :: "string \<Rightarrow> string option" where
  "re_search_group [] = None"
| "re_search_group (c # cs) =
     (if c = CHR ''('' \<and> takeWhile (\<lambda>x. x \<noteq> CHR '')'') cs \<noteq> []
         \<and> dropWhile (\<lambda>x. x \<noteq> CHR '')'') cs \<noteq> []
      then Some (takeWhile (\<lambda>x. x \<noteq> CHR '')'') cs)
      else re_search_group cs)"

text \<open>
  \<open>discovery_api.extract_coordinates\<close>. Its argument is what \<open>ewkb_to_wkt\<close> returned,
  a text or \<open>None\<close>; \<open>re.search\<close> on \<open>None\<close> raises \<open>TypeError\<close>.
\<close>

definition extract_coordinates :: "string option \<Rightarrow> error + string" where
  "extract_coordinates point_str =
     (case point_str of
        None \<Rightarrow> Inl TypeError
      | Some s \<Rightarrow>
          (case re_search_group s of
             Some g \<Rightarrow> Inr g
           | None \<Rightarrow> Inr []))"


section \<open>Distance query (\<open>crud.distance_from_discoveries\<close>, \<open>discovery_api.distance\<close>)\<close>

text \<open>
  The query returns one row \<open>(id, ST_Distance(coordinate_gps, ST_GeomFromText(my_position)))\<close>
  for every discovery. The distance function of the database is a parameter, and so
  is the number type of its result: the handler only divides it by the numeral 1000.
\<close>

definition distance_from_discoveries ::
  "(string \<Rightarrow> string \<Rightarrow> 'a) \<Rightarrow> database \<Rightarrow> string \<Rightarrow> (int \<times> 'a) list" where
  "distance_from_discoveries st_distance db my_position =
     map (\<lambda>d. (dis_id d, st_distance (dis_coordinate_gps d) my_position)) (discoveries db)"

text \<open>
  \<open>discovery_api.distance\<close>: the dictionary comprehension stores the rows in order, a
  later row of the same key replacing an earlier one.
\<close>

definition distance ::
  "(string \<Rightarrow> string \<Rightarrow> 'a::{inverse,numeral}) \<Rightarrow> database \<Rightarrow> string
     \<Rightarrow> error + (int \<rightharpoonup> 'a)" where
  "distance st_distance db my_position =
     (let distances_in_m =
            distance_from_discoveries st_distance db (''POINT('' @ my_position @ '')'')
      in if distances_in_m \<noteq> [] then
           Inr (fold (\<lambda>row result. result(fst row \<mapsto> snd row / 1000))
                  distances_in_m Map.empty)
         else Inl (HTTPException 404 ''No discoveries found.''))"

section \<open>Sample data\<close>

text \<open>
  Concrete rows, a concrete store and stand-ins for the parameters (password hashing,
  token handling, the distance of the database), at which the theorems below are
  instantiated.
\<close>

definition sample_experience :: "int \<Rightarrow> int \<Rightarrow> experience" where
  "sample_experience i s =
     \<lparr> exp_id = i, exp_title = ''Kayak tour'', exp_description = ''Half a day on the lake'',
       exp_difficulty_id = 1, exp_price = [(''amount'', 30)], exp_duration = (3, 30, 0),
       exp_img_preview_path = ''kayak.jpg'', exp_img_paths = [], exp_state_id = s \<rparr>"

definition sample_discovery :: "int \<Rightarrow> int \<Rightarrow> int \<Rightarrow> discovery" where
  "sample_discovery i k s =
     \<lparr> dis_id = i, dis_title = ''Old bridge'', dis_description = ''Roman bridge'',
       dis_img_preview_path = ''bridge.jpg'', dis_img_paths = [], dis_video_paths = [],
       dis_coordinate_gps = ''POINT (12.5 41.9)'', dis_address = ''Via Appia 1'',
       dis_kind_id = k, dis_state_id = s \<rparr>"

definition sample_tourist :: "int \<Rightarrow> int \<Rightarrow> tourist_user" where
  "sample_tourist i s =
     \<lparr> tu_id = i, tu_name = ''Ada'', tu_surname = ''Rossi'', tu_email = ''ada@example.org'',
       tu_password = ''hash-of-secret'', tu_telephone = ''555'', tu_img_profile = ''ada.png'',
       tu_state_id = s \<rparr>"

definition sample_host :: "int \<Rightarrow> int \<Rightarrow> host_user" where
  "sample_host i s =
     \<lparr> hu_id = i, hu_name = ''Bruno'', hu_email = ''bruno@example.org'',
       hu_password = ''hash-of-pass'', hu_img_profile = ''bruno.png'', hu_state_id = s \<rparr>"

definition empty_db :: database where
  "empty_db =
     \<lparr> tourist_users = [], host_users = [], experiences = [], discoveries = [],
       tourist_user_likes = [] \<rparr>"

definition sample_db :: database where
  "sample_db =
     \<lparr> tourist_users = [sample_tourist 5 1, (sample_tourist 6 2)\<lparr> tu_email := ''bea@example.org'' \<rparr>],
       host_users = [sample_host 1 1, (sample_host 2 2)\<lparr> hu_email := ''carla@example.org'' \<rparr>],
       experiences = [sample_experience 3 1, sample_experience 1 1, sample_experience 2 2,
                      sample_experience 4 1],
       discoveries = [sample_discovery 1 2 1,
                      (sample_discovery 2 3 1)\<lparr> dis_coordinate_gps := ''POINT (9.19 45.46)'' \<rparr>,
                      sample_discovery 3 2 2],
       tourist_user_likes = [\<lparr> like_tourist_user_id = 5, like_experience_id = 3 \<rparr>] \<rparr>"

definition sample_signup :: "int \<Rightarrow> tourist_user_create" where
  "sample_signup s =
     \<lparr> tc_name = ''Dora'', tc_surname = ''Bianchi'', tc_email = ''dora@example.org'',
       tc_img_profile = ''dora.png'', tc_state_id = s, tc_telephone = ''777'',
       tc_password = ''secret'' \<rparr>"

definition sample_experience_base :: "int \<Rightarrow> experience_base" where
  "sample_experience_base s =
     \<lparr> eb_title = ''Night walk'', eb_description = ''City centre by night'',
       eb_difficulty_id = 2, eb_price = [(''amount'', 15)], eb_duration = (2, 0, 0),
       eb_img_preview_path = ''walk.jpg'', eb_img_paths = [], eb_state_id = s \<rparr>"

definition sample_discovery_base :: "string option \<Rightarrow> int \<Rightarrow> discovery_base" where
  "sample_discovery_base c s =
     \<lparr> dbase_title = ''Harbour'', dbase_description = ''Old harbour'',
       dbase_img_preview_path = ''harbour.jpg'', dbase_img_paths = [''h1.jpg''],
       dbase_video_paths = [], dbase_coordinate_gps = c, dbase_address = '''',
       dbase_kind_id = 4, dbase_state_id = s \<rparr>"

definition sample_hash_password :: "string \<Rightarrow> string" where
  "sample_hash_password password = ''hash-of-'' @ password"

definition sample_check_password :: "string \<Rightarrow> string \<Rightarrow> bool" where
  "sample_check_password input_password hashed_password_string =
     (hashed_password_string = ''hash-of-'' @ input_password)"

definition sample_create_jwt :: "token_payload \<Rightarrow> string" where
  "sample_create_jwt payload = ''jwt-'' @ tp_role payload"

definition sample_is_jwt_valid :: "string \<Rightarrow> token_payload option" where
  "sample_is_jwt_valid token =
     (if token = ''tourist-5'' then Some \<lparr> tp_user_id = 5, tp_role = ''Tourist'' \<rparr>
      else if token = ''tourist-6'' then Some \<lparr> tp_user_id = 6, tp_role = ''Tourist'' \<rparr>
      else if token = ''tourist-9'' then Some \<lparr> tp_user_id = 9, tp_role = ''Tourist'' \<rparr>
      else if token = ''host-1'' then Some \<lparr> tp_user_id = 1, tp_role = ''Host'' \<rparr>
      else if token = ''host-2'' then Some \<lparr> tp_user_id = 2, tp_role = ''Host'' \<rparr>
      else if token = ''host-9'' then Some \<lparr> tp_user_id = 9, tp_role = ''Host'' \<rparr>
      else None)"

definition sample_st_distance :: "string \<Rightarrow> string \<Rightarrow> real" where
  "sample_st_distance coordinate_gps my_position =
     (if coordinate_gps = ''POINT (12.5 41.9)'' then 1500 else 250)"

text \<open>A store that enforces the unique email of the tourist table and nothing else.\<close>

definition sample_commit_error :: "database \<Rightarrow> sqlalchemy_error option" where
  "sample_commit_error db =
     (if distinct (map tu_email (tourist_users db)) then None
      else Some (IntegrityError
                   ''duplicate key value violates unique constraint tourist_users_email_key''))"



section \<open>Auxiliary facts about lists\<close>

lemma take_Suc_nonempty: "take (Suc n) xs \<noteq> [] \<longleftrightarrow> xs \<noteq> []"
  by (cases xs) simp_all

lemma find_distinct_key:
  "distinct (map f xs) \<Longrightarrow> x \<in> set xs \<Longrightarrow> find (\<lambda>y. f y = f x) xs = Some x"
  by (induction xs) (auto simp: image_iff)

section \<open>The page of a list request\<close>

text \<open>
  C1. Let \<open>rows\<close> be the rows that match the filter \<open>state_id == 1\<close>, in ascending order
  of id, from the offset \<open>cursor\<close> on (from the start when the cursor is absent). For
  every page size \<open>limit > 0\<close> and every cursor, the engine fetches the first
  \<open>limit + 1\<close> of them, in ascending order of id. When there is no such row the request
  fails with 404; otherwise it returns a page whose items are the first \<open>limit\<close> rows
  (so at most \<open>limit\<close> items, and at least one), whose \<open>has_more\<close> is true exactly when
  a \<open>(limit+1)\<close>-th row exists, and whose cursor is the id of the last item of the
  truncated page.
\<close>

theorem get_experiences_page:
  assumes "0 < limit"
  shows "let rows = drop (case cur of None \<Rightarrow> 0 | Some c \<Rightarrow> c)
                      (sort_key exp_id (filter (\<lambda>e. exp_state_id e = 1) (experiences db)))
         in crud_get_experiences db cur limit = take (limit + 1) rows
          \<and> sorted (map exp_id (crud_get_experiences db cur limit))
          \<and> (rows = [] \<longrightarrow>
               get_experiences db cur limit = Inl (HTTPException 404 ''No experiences found.''))
          \<and> (rows \<noteq> [] \<longrightarrow>
               (\<exists>page. get_experiences db cur limit = Inr page
                  \<and> resp_items page = take limit rows
                  \<and> length (resp_items page) \<le> limit
                  \<and> (resp_has_more page \<longleftrightarrow> limit < length rows)
                  \<and> resp_items page \<noteq> []
                  \<and> resp_cursor page = Some (exp_id (last (resp_items page)))))"
proof -
  define rows where "rows = drop (case cur of None \<Rightarrow> 0 | Some c \<Rightarrow> c)
                      (sort_key exp_id (filter (\<lambda>e. exp_state_id e = 1) (experiences db)))"
  have fetch: "crud_get_experiences db cur limit = take (limit + 1) rows"
    by (simp add: crud_get_experiences_def rows_def split: option.split)
  have "sorted (map exp_id rows)"
    unfolding rows_def by (simp add: drop_map [symmetric] sorted_wrt_drop)
  then have srt: "sorted (map exp_id (crud_get_experiences db cur limit))"
    unfolding fetch by (simp add: take_map [symmetric] sorted_wrt_take del: take_Suc_conv_app_nth)
  have empty: "get_experiences db cur limit = Inl (HTTPException 404 ''No experiences found.'')"
    if "rows = []"
    using that by (simp add: get_experiences_def fetch)
  have page: "\<exists>page. get_experiences db cur limit = Inr page
                  \<and> resp_items page = take limit rows
                  \<and> length (resp_items page) \<le> limit
                  \<and> (resp_has_more page \<longleftrightarrow> limit < length rows)
                  \<and> resp_items page \<noteq> []
                  \<and> resp_cursor page = Some (exp_id (last (resp_items page)))"
    if ne: "rows \<noteq> []"
  proof -
    have ne1: "take (limit + 1) rows \<noteq> []"
      using ne by (simp add: take_Suc_nonempty)
    have tt: "take limit (take (limit + 1) rows) = take limit rows"
      by (simp add: min_def)
    have ne2: "take limit rows \<noteq> []"
      using ne assms by (cases rows; cases limit) simp_all
    have hm: "(limit < length (take (limit + 1) rows)) = (limit < length rows)"
      by auto
    show ?thesis
      using ne1 ne2 hm by (simp add: get_experiences_def fetch tt Let_def)
  qed
  show ?thesis
    unfolding Let_def rows_def [symmetric] using fetch srt empty page by blast
qed

theorem get_experiences_page_witness:
  "(0::nat) < 2
   \<and> get_experiences sample_db None 2 =
       Inr \<lparr> resp_cursor = Some 3, resp_has_more = True,
             resp_items = [sample_experience 1 1, sample_experience 3 1] \<rparr>
   \<and> get_experiences sample_db (Some 2) 2 =
       Inr \<lparr> resp_cursor = Some 4, resp_has_more = False,
             resp_items = [sample_experience 4 1] \<rparr>
   \<and> get_experiences sample_db (Some 3) 2 = Inl (HTTPException 404 ''No experiences found.'')"
  using get_experiences_page [where limit = 2 and cur = None and db = sample_db]
        get_experiences_page [where limit = 2 and cur = "Some 3" and db = sample_db]
  by (simp add: get_experiences_def crud_get_experiences_def sample_db_def
        sample_experience_def)

section \<open>Published rows only\<close>

text \<open>
  C9. Every row that the experience or the discovery list query returns has
  \<open>state_id = 1\<close>, and a discovery row has its \<open>kind_id\<close> among the requested
  categories, for every cursor and limit; so every item of a page of experiences has
  \<open>state_id = 1\<close>. The get-by-id queries do not look at the state: in a table whose
  ids are distinct they return any stored row, published or not, by its id.
\<close>

theorem list_rows_published:
  "(\<forall>e \<in> set (crud_get_experiences db cur limit). exp_state_id e = 1)
   \<and> (\<forall>d \<in> set (crud_get_discoveries db cur limit category all).
         dis_state_id d = 1 \<and> dis_kind_id d \<in> set (if all then [1, 2, 3, 4] else [category]))
   \<and> (\<forall>page. get_experiences db cur limit = Inr page \<longrightarrow>
         (\<forall>e \<in> set (resp_items page). exp_state_id e = 1))
   \<and> (distinct (map exp_id (experiences db)) \<longrightarrow>
         (\<forall>e \<in> set (experiences db). crud_get_experience db (exp_id e) = Some e))
   \<and> (distinct (map dis_id (discoveries db)) \<longrightarrow>
         (\<forall>d \<in> set (discoveries db). crud_get_discovery db (dis_id d) = Some d))"
proof -
  have e: "exp_state_id e = 1" if "e \<in> set (crud_get_experiences db cur limit)" for e
    using that
    by (auto simp: crud_get_experiences_def split: option.splits
             dest!: in_set_takeD in_set_dropD)
  have d: "dis_state_id d = 1 \<and> dis_kind_id d \<in> set (if all then [1, 2, 3, 4] else [category])"
    if "d \<in> set (crud_get_discoveries db cur limit category all)" for d
    using that
    by (auto simp: crud_get_discoveries_def Let_def split: option.splits if_splits
             dest!: in_set_takeD in_set_dropD)
  have p: "exp_state_id e = 1"
    if "get_experiences db cur limit = Inr page" "e \<in> set (resp_items page)" for page e
  proof -
    from that have "e \<in> set (take limit (crud_get_experiences db cur limit))"
      by (auto simp: get_experiences_def Let_def split: if_splits)
    then show ?thesis using e by (blast dest: in_set_takeD)
  qed
  have ge: "crud_get_experience db (exp_id x) = Some x"
    if "distinct (map exp_id (experiences db))" "x \<in> set (experiences db)" for x
    unfolding crud_get_experience_def using that by (rule find_distinct_key)
  have gd: "crud_get_discovery db (dis_id x) = Some x"
    if "distinct (map dis_id (discoveries db))" "x \<in> set (discoveries db)" for x
    unfolding crud_get_discovery_def using that by (rule find_distinct_key)
  show ?thesis using e d p ge gd by blast
qed

theorem list_rows_published_witness:
  "set (crud_get_experiences sample_db None 20)
     = {sample_experience 1 1, sample_experience 3 1, sample_experience 4 1}
   \<and> map exp_state_id (crud_get_experiences sample_db None 20) = [1, 1, 1]
   \<and> crud_get_discoveries sample_db None 20 2 False = [sample_discovery 1 2 1]
   \<and> dis_state_id (sample_discovery 1 2 1) = 1
   \<and> dis_kind_id (sample_discovery 1 2 1) = 2
   \<and> distinct (map exp_id (experiences sample_db))
   \<and> sample_experience 2 2 \<in> set (experiences sample_db)
   \<and> crud_get_experience sample_db 2 = Some (sample_experience 2 2)
   \<and> exp_state_id (sample_experience 2 2) = 2
   \<and> distinct (map dis_id (discoveries sample_db))
   \<and> sample_discovery 3 2 2 \<in> set (discoveries sample_db)
   \<and> crud_get_discovery sample_db 3 = Some (sample_discovery 3 2 2)"
  using list_rows_published [of sample_db None 20 2 False]
  by (simp add: crud_get_experiences_def crud_get_discoveries_def crud_get_experience_def
        crud_get_discovery_def sample_db_def sample_experience_def sample_discovery_def)

section \<open>Toggling a like\<close>

text \<open>A like row has exactly the two fields of the pair, so the lookup is a membership test.\<close>

lemma find_like:
  "find (\<lambda>l. like_tourist_user_id l = u \<and> like_experience_id l = e) xs =
     (if \<lparr> like_tourist_user_id = u, like_experience_id = e \<rparr> \<in> set xs
      then Some \<lparr> like_tourist_user_id = u, like_experience_id = e \<rparr> else None)"
  by (induction xs) auto

lemma crud_get_like_eq:
  "crud_get_like db u e =
     (if \<lparr> like_tourist_user_id = u, like_experience_id = e \<rparr> \<in> set (tourist_user_likes db)
      then Some \<lparr> like_tourist_user_id = u, like_experience_id = e \<rparr> else None)"
  by (simp add: crud_get_like_def find_like)

text \<open>
  C8. For a tourist and an existing experience, in a table that holds every like row
  at most once: a toggle appends the row of the pair when the pair has none (result
  \<open>True\<close>) and deletes it when it is there (result \<open>False\<close>), so it flips the
  like-state of the pair; the table still holds every row at most once; and a second
  toggle answers the opposite and restores the original like-state, with the same set
  of like rows, the same number of them, and every other table untouched.
\<close>

theorem toggle_like_involution:
  assumes ex: "crud_get_experience db experience_id \<noteq> None"
      and once: "distinct (tourist_user_likes db)"
  shows "\<exists>r1 db1 r2 db2.
           toggle_like db me experience_id = Inr (r1, db1)
         \<and> toggle_like db1 me experience_id = Inr (r2, db2)
         \<and> (r1 \<longleftrightarrow> crud_get_like db (tu_id me) experience_id = None)
         \<and> tourist_user_likes db1 =
             (if crud_get_like db (tu_id me) experience_id = None
              then tourist_user_likes db
                     @ [\<lparr> like_tourist_user_id = tu_id me, like_experience_id = experience_id \<rparr>]
              else remove1 \<lparr> like_tourist_user_id = tu_id me, like_experience_id = experience_id \<rparr>
                     (tourist_user_likes db))
         \<and> ((crud_get_like db1 (tu_id me) experience_id = None)
              \<longleftrightarrow> (crud_get_like db (tu_id me) experience_id \<noteq> None))
         \<and> (r2 \<longleftrightarrow> \<not> r1)
         \<and> ((crud_get_like db2 (tu_id me) experience_id = None)
              \<longleftrightarrow> (crud_get_like db (tu_id me) experience_id = None))
         \<and> distinct (tourist_user_likes db1)
         \<and> distinct (tourist_user_likes db2)
         \<and> set (tourist_user_likes db2) = set (tourist_user_likes db)
         \<and> length (tourist_user_likes db2) = length (tourist_user_likes db)
         \<and> db2\<lparr> tourist_user_likes := tourist_user_likes db \<rparr> = db"
proof -
  let ?l = "\<lparr> like_tourist_user_id = tu_id me, like_experience_id = experience_id \<rparr>"
  let ?likes = "tourist_user_likes db"
  obtain x where x: "crud_get_experience db experience_id = Some x"
    using ex by auto
  show ?thesis
  proof (cases "?l \<in> set ?likes")
    case True
    define db1 where "db1 = db\<lparr> tourist_user_likes := remove1 ?l ?likes \<rparr>"
    define db2 where "db2 = db1\<lparr> tourist_user_likes := remove1 ?l ?likes @ [?l] \<rparr>"
    have notin: "?l \<notin> set (remove1 ?l ?likes)"
      using once by simp
    have g: "crud_get_like db (tu_id me) experience_id \<noteq> None"
      using True by (simp add: crud_get_like_eq)
    have t1: "toggle_like db me experience_id = Inr (False, db1)"
      using True x by (simp add: toggle_like_def crud_get_like_eq crud_delete_like_def db1_def)
    have x1: "crud_get_experience db1 experience_id = Some x"
      using x by (simp add: crud_get_experience_def db1_def)
    have t2: "toggle_like db1 me experience_id = Inr (True, db2)"
      using notin x1
      by (simp add: toggle_like_def crud_get_like_eq crud_create_like_def db1_def db2_def)
    have c3: "False \<longleftrightarrow> crud_get_like db (tu_id me) experience_id = None"
      using g by auto
    have c4: "tourist_user_likes db1 =
             (if crud_get_like db (tu_id me) experience_id = None
              then ?likes @ [?l] else remove1 ?l ?likes)"
      using g by (auto simp: db1_def)
    have c5: "(crud_get_like db1 (tu_id me) experience_id = None)
              \<longleftrightarrow> (crud_get_like db (tu_id me) experience_id \<noteq> None)"
      using notin g by (auto simp: crud_get_like_eq db1_def)
    have c6: "True \<longleftrightarrow> \<not> False"
      by simp
    have c7: "(crud_get_like db2 (tu_id me) experience_id = None)
              \<longleftrightarrow> (crud_get_like db (tu_id me) experience_id = None)"
      using g by (auto simp: crud_get_like_eq db2_def)
    have c8: "distinct (tourist_user_likes db1)"
      using once by (simp add: db1_def)
    have c9: "distinct (tourist_user_likes db2)"
      using once notin by (simp add: db2_def)
    have c10: "set (tourist_user_likes db2) = set ?likes"
      using True once by (auto simp: db2_def)
    have c11: "length (tourist_user_likes db2) = length ?likes"
      using True length_pos_if_in_set [OF True] by (simp add: db2_def length_remove1)
    have c12: "db2\<lparr> tourist_user_likes := ?likes \<rparr> = db"
      by (simp add: db2_def db1_def)
    show ?thesis
      apply (rule exI [of _ False])
      apply (rule exI [of _ db1])
      apply (rule exI [of _ True])
      apply (rule exI [of _ db2])
      using t1 t2 c3 c4 c5 c6 c7 c8 c9 c10 c11 c12 by (intro conjI)
  next
    case False
    define db1 where "db1 = db\<lparr> tourist_user_likes := ?likes @ [?l] \<rparr>"
    have g: "crud_get_like db (tu_id me) experience_id = None"
      using False by (simp add: crud_get_like_eq)
    have t1: "toggle_like db me experience_id = Inr (True, db1)"
      using False x by (simp add: toggle_like_def crud_get_like_eq crud_create_like_def db1_def)
    have x1: "crud_get_experience db1 experience_id = Some x"
      using x by (simp add: crud_get_experience_def db1_def)
    have rm: "remove1 ?l (?likes @ [?l]) = ?likes"
      using False by (simp add: remove1_append)
    have t2: "toggle_like db1 me experience_id = Inr (False, db)"
      using x1 rm
      by (simp add: toggle_like_def crud_get_like_eq crud_delete_like_def db1_def)
    have c3: "True \<longleftrightarrow> crud_get_like db (tu_id me) experience_id = None"
      using g by simp
    have c4: "tourist_user_likes db1 =
             (if crud_get_like db (tu_id me) experience_id = None
              then ?likes @ [?l] else remove1 ?l ?likes)"
      using g by (auto simp: db1_def)
    have c5: "(crud_get_like db1 (tu_id me) experience_id = None)
              \<longleftrightarrow> (crud_get_like db (tu_id me) experience_id \<noteq> None)"
      using g by (auto simp: crud_get_like_eq db1_def)
    have c6: "False \<longleftrightarrow> \<not> True"
      by simp
    have c7: "(crud_get_like db (tu_id me) experience_id = None)
              \<longleftrightarrow> (crud_get_like db (tu_id me) experience_id = None)"
      by simp
    have c8: "distinct (tourist_user_likes db1)"
      using once False by (simp add: db1_def)
    have c10: "set ?likes = set ?likes" and c11: "length ?likes = length ?likes"
      by simp_all
    have c12: "db\<lparr> tourist_user_likes := ?likes \<rparr> = db"
      by simp
    show ?thesis
      apply (rule exI [of _ True])
      apply (rule exI [of _ db1])
      apply (rule exI [of _ False])
      apply (rule exI [of _ db])
      using t1 t2 c3 c4 c5 c6 c7 c8 once c10 c11 c12 by (intro conjI)
  qed
qed

theorem toggle_like_involution_witness:
  "crud_get_experience sample_db 3 \<noteq> None
   \<and> distinct (tourist_user_likes sample_db)
   \<and> toggle_like sample_db (sample_tourist 5 1) 3
       = Inr (False, sample_db\<lparr> tourist_user_likes := [] \<rparr>)
   \<and> toggle_like (sample_db\<lparr> tourist_user_likes := [] \<rparr>) (sample_tourist 5 1) 3
       = Inr (True, sample_db)"
  using toggle_like_involution [of sample_db 3 "sample_tourist 5 1"]
  by (simp add: toggle_like_def crud_get_experience_def crud_get_like_def
        crud_delete_like_def crud_create_like_def sample_db_def sample_tourist_def
        sample_experience_def)

section \<open>Signin failures\<close>

text \<open>
  C10. Tourist signin fails with status 404 for every email that matches no tourist
  row, and with status 401 for an email that matches a row whose password does not
  verify. Whenever signin fails, the status of the failure tells whether the email is
  registered: 404 when it is not, 401 when it is.
\<close>

theorem signin_failure_causes:
  "(crud_get_tourist_user_by_email db email = None \<longrightarrow>
      signin check_password create_jwt db email password
        = Inl (HTTPException 404 (''User doesn'' @ [CHR 0x27] @ ''t exist-'')))
   \<and> (\<forall>tourist. crud_get_tourist_user_by_email db email = Some tourist
         \<and> \<not> check_password password (tu_password tourist) \<longrightarrow>
      signin check_password create_jwt db email password
        = Inl (HTTPException 401 ''Incorrect username or password''))
   \<and> (\<forall>e. signin check_password create_jwt db email password = Inl e \<longrightarrow>
         (crud_get_tourist_user_by_email db email = None \<longrightarrow> e \<noteq> TypeError \<and> status_code e = 404)
       \<and> (crud_get_tourist_user_by_email db email \<noteq> None \<longrightarrow> e \<noteq> TypeError \<and> status_code e = 401))"
  by (auto simp: signin_def authenticate_tourist_def split: option.splits if_splits)

theorem signin_failure_causes_witness:
  "crud_get_tourist_user_by_email sample_db ''zoe@example.org'' = None
   \<and> signin sample_check_password sample_create_jwt sample_db ''zoe@example.org'' ''secret''
       = Inl (HTTPException 404 (''User doesn'' @ [CHR 0x27] @ ''t exist-''))
   \<and> crud_get_tourist_user_by_email sample_db ''ada@example.org'' = Some (sample_tourist 5 1)
   \<and> \<not> sample_check_password ''wrong'' (tu_password (sample_tourist 5 1))
   \<and> signin sample_check_password sample_create_jwt sample_db ''ada@example.org'' ''wrong''
       = Inl (HTTPException 401 ''Incorrect username or password'')
   \<and> signin sample_check_password sample_create_jwt sample_db ''ada@example.org'' ''secret''
       = Inr \<lparr> access_token = ''jwt-Tourist'', token_type = ''bearer'' \<rparr>"
  using signin_failure_causes [of sample_db "''zoe@example.org''" sample_check_password
          sample_create_jwt "''secret''"]
        signin_failure_causes [of sample_db "''ada@example.org''" sample_check_password
          sample_create_jwt "''wrong''"]
  by (simp add: signin_def authenticate_tourist_def crud_get_tourist_user_by_email_def
        sample_db_def sample_tourist_def sample_check_password_def sample_create_jwt_def
        roles_def)

section \<open>Coordinate round trip\<close>








section \<open>Distances in kilometres\<close>

lemma fold_upd_notin:
  "k \<notin> fst ` set rows \<Longrightarrow>
     fold (\<lambda>row result. result(fst row \<mapsto> snd row / 1000)) rows m k = m k"
  by (induction rows arbitrary: m) auto

lemma fold_upd_in:
  "distinct (map fst rows) \<Longrightarrow> (k, v) \<in> set rows \<Longrightarrow>
     fold (\<lambda>row result. result(fst row \<mapsto> snd row / 1000)) rows m k = Some (v / 1000)"
proof (induction rows arbitrary: m)
  case Nil
  then show ?case by simp
next
  case (Cons r rows)
  show ?case
  proof (cases "(k, v) = r")
    case True
    then have notin: "k \<notin> fst ` set rows"
      using Cons.prems(1) by force
    have "fold (\<lambda>row result. result(fst row \<mapsto> snd row / 1000)) (r # rows) m k
            = fold (\<lambda>row result. result(fst row \<mapsto> snd row / 1000)) rows
                (m(fst r \<mapsto> snd r / 1000)) k"
      by simp
    also have "\<dots> = (m(fst r \<mapsto> snd r / 1000)) k"
      using notin by (rule fold_upd_notin)
    also have "\<dots> = Some (v / 1000)"
      using True by auto
    finally show ?thesis .
  next
    case False
    then have "(k, v) \<in> set rows" and "distinct (map fst rows)"
      using Cons.prems by auto
    then show ?thesis
      using Cons.IH by simp
  qed
qed

lemma dom_fold_upd:
  "dom (fold (\<lambda>row result. result(fst row \<mapsto> snd row / 1000)) rows m)
     = dom m \<union> fst ` set rows"
  by (induction rows arbitrary: m) auto

text \<open>
  C7. With no discovery in the table the distance endpoint fails with 404 and returns
  no mapping. With at least one it returns a mapping whose keys are exactly the ids of
  the discoveries; when the ids are distinct (\<open>id\<close> is the primary key), every row
  \<open>(id, distance)\<close> of the query is stored as \<open>id \<mapsto> distance / 1000\<close>, that is, every
  discovery id is mapped to the distance the database computed for it, divided by
  1000.
\<close>

theorem distance_km:
  "(discoveries db = [] \<longrightarrow>
      distance st_distance db my_position = Inl (HTTPException 404 ''No discoveries found.''))
   \<and> (discoveries db \<noteq> [] \<longrightarrow>
        (\<exists>result. distance st_distance db my_position = Inr result
           \<and> dom result = dis_id ` set (discoveries db)
           \<and> (distinct (map dis_id (discoveries db)) \<longrightarrow>
                (\<forall>row \<in> set (distance_from_discoveries st_distance db
                                 (''POINT('' @ my_position @ '')'')).
                    result (fst row) = Some (snd row / 1000))
              \<and> (\<forall>d \<in> set (discoveries db).
                    result (dis_id d)
                      = Some (st_distance (dis_coordinate_gps d)
                                (''POINT('' @ my_position @ '')'') / 1000)))))"
proof -
  let ?rows = "distance_from_discoveries st_distance db (''POINT('' @ my_position @ '')'')"
  let ?result = "fold (\<lambda>row result. result(fst row \<mapsto> snd row / 1000)) ?rows Map.empty"
  have keys: "map fst ?rows = map dis_id (discoveries db)"
    by (simp add: distance_from_discoveries_def comp_def)
  have emp: "distance st_distance db my_position = Inl (HTTPException 404 ''No discoveries found.'')"
    if "discoveries db = []"
    using that by (simp add: distance_def distance_from_discoveries_def)
  have res: "distance st_distance db my_position = Inr ?result" if "discoveries db \<noteq> []"
    using that by (simp add: distance_def Let_def distance_from_discoveries_def)
  have dm: "dom ?result = dis_id ` set (discoveries db)"
  proof -
    have "fst ` set ?rows = set (map fst ?rows)" by simp
    also have "\<dots> = dis_id ` set (discoveries db)" unfolding keys by simp
    finally have "fst ` set ?rows = dis_id ` set (discoveries db)" .
    then show ?thesis unfolding dom_fold_upd by simp
  qed
  have rows: "?result (fst row) = Some (snd row / 1000)"
    if "distinct (map dis_id (discoveries db))" "row \<in> set ?rows" for row
  proof -
    have "distinct (map fst ?rows)" using that(1) keys by simp
    moreover have "(fst row, snd row) \<in> set ?rows" using that(2) by simp
    ultimately show ?thesis by (rule fold_upd_in)
  qed
  have ds: "?result (dis_id d) = Some (st_distance (dis_coordinate_gps d)
                                (''POINT('' @ my_position @ '')'') / 1000)"
    if "distinct (map dis_id (discoveries db))" "d \<in> set (discoveries db)" for d
  proof -
    have "(dis_id d, st_distance (dis_coordinate_gps d) (''POINT('' @ my_position @ '')''))
            \<in> set ?rows"
      using that(2) by (auto simp: distance_from_discoveries_def)
    from rows [OF that(1) this] show ?thesis by simp
  qed
  show ?thesis
  proof (intro conjI impI)
    assume "discoveries db = []"
    then show "distance st_distance db my_position
                 = Inl (HTTPException 404 ''No discoveries found.'')"
      by (rule emp)
  next
    assume ne: "discoveries db \<noteq> []"
    show "\<exists>result. distance st_distance db my_position = Inr result
           \<and> dom result = dis_id ` set (discoveries db)
           \<and> (distinct (map dis_id (discoveries db)) \<longrightarrow>
                (\<forall>row \<in> set ?rows. result (fst row) = Some (snd row / 1000))
              \<and> (\<forall>d \<in> set (discoveries db).
                    result (dis_id d)
                      = Some (st_distance (dis_coordinate_gps d)
                                (''POINT('' @ my_position @ '')'') / 1000)))"
    proof (intro exI [of _ ?result] conjI impI ballI)
      show "distance st_distance db my_position = Inr ?result" using ne by (rule res)
      show "dom ?result = dis_id ` set (discoveries db)" by (rule dm)
    next
      fix row
      assume "distinct (map dis_id (discoveries db))" "row \<in> set ?rows"
      then show "?result (fst row) = Some (snd row / 1000)" by (rule rows)
    next
      fix d
      assume "distinct (map dis_id (discoveries db))" "d \<in> set (discoveries db)"
      then show "?result (dis_id d) = Some (st_distance (dis_coordinate_gps d)
                                (''POINT('' @ my_position @ '')'') / 1000)" by (rule ds)
    qed
  qed
qed

theorem distance_km_witness:
  "discoveries sample_db \<noteq> []
   \<and> distinct (map dis_id (discoveries sample_db))
   \<and> distance_from_discoveries sample_st_distance sample_db ''POINT(12.0 41.0)''
       = [(1, 1500), (2, 250), (3, 1500)]
   \<and> (case distance sample_st_distance sample_db ''12.0 41.0'' of
         Inr result \<Rightarrow> map result [1, 2, 3, 4] = [Some (3 / 2), Some (1 / 4), Some (3 / 2), None]
       | Inl e \<Rightarrow> False)
   \<and> distance sample_st_distance empty_db ''12.0 41.0''
       = Inl (HTTPException 404 ''No discoveries found.'')"
  using distance_km [of sample_db sample_st_distance "''12.0 41.0''"]
        distance_km [of empty_db sample_st_distance "''12.0 41.0''"]
  by (simp add: distance_def distance_from_discoveries_def sample_db_def empty_db_def
        sample_discovery_def sample_st_distance_def)

section \<open>Merged fields of a partial update\<close>

lemma find_key_replace:
  "find (\<lambda>u. f u = k) xs = Some x \<Longrightarrow> f y = k \<Longrightarrow>
     find (\<lambda>u. f u = k) (map (\<lambda>u. if f u = k then y else u) xs) = Some y"
  by (induction xs) (auto split: if_splits)

lemma find_key_Some: "find (\<lambda>u. f u = k) xs = Some x \<Longrightarrow> f x = k"
  by (induction xs) (auto split: if_splits)

lemma update_my_info_fields_id:
  "tu_id (update_my_info_fields old new_name new_surname new_email new_img_profile
            new_state_id new_telephone) = tu_id old"
  by (simp add: update_my_info_fields_def Let_def split: option.split)

lemma discovery_update_fields_id:
  "dis_id (discovery_update_fields discovery discovery_data) = dis_id discovery"
  by (simp add: discovery_update_fields_def Let_def split: option.split)

text \<open>The self-assignment: the stored video paths survive every update.\<close>

lemma discovery_update_fields_video_paths:
  "dis_video_paths (discovery_update_fields discovery discovery_data)
     = dis_video_paths discovery"
  by (simp add: discovery_update_fields_def Let_def split: option.split)

lemma discovery_update_fields_address:
  "dis_address (discovery_update_fields discovery discovery_data) = dis_address discovery"
  by (simp add: discovery_update_fields_def Let_def split: option.split)

text \<open>
  What the handlers do with the merged row: they hand it to the commit. When the store
  accepts the commit, the row read back is the merged row; when it does not, the
  handler raises what \<open>handle\<close> makes of the error and nothing is stored.
\<close>

lemma update_my_info_commit:
  assumes "crud_get_tourist_user db (tu_id tourist_user) = Some row"
  shows "update_my_info commit_error db tourist_user new_name new_surname new_email
           new_img_profile new_state_id new_telephone = Inr (ok, db')
         \<Longrightarrow> ok \<and> commit_error db' = None
             \<and> crud_get_tourist_user db' (tu_id tourist_user)
                 = Some (update_my_info_fields row new_name new_surname new_email
                           new_img_profile new_state_id new_telephone)"
    and "commit_error
           (db\<lparr> tourist_users :=
                  map (\<lambda>u. if tu_id u = tu_id tourist_user
                            then update_my_info_fields row new_name new_surname new_email
                                   new_img_profile new_state_id new_telephone
                            else u) (tourist_users db) \<rparr>) = Some e
         \<Longrightarrow> update_my_info commit_error db tourist_user new_name new_surname new_email
               new_img_profile new_state_id new_telephone = Inl (handle e)"
proof -
  let ?new = "update_my_info_fields row new_name new_surname new_email
                           new_img_profile new_state_id new_telephone"
  let ?db = "db\<lparr> tourist_users :=
                  map (\<lambda>u. if tu_id u = tu_id tourist_user then ?new else u)
                    (tourist_users db) \<rparr>"
  have k: "tu_id row = tu_id tourist_user"
    using assms unfolding crud_get_tourist_user_def by (rule find_key_Some)
  have idn: "tu_id ?new = tu_id tourist_user"
    using k by (simp add: update_my_info_fields_id)
  have f: "find (\<lambda>u. tu_id u = tu_id tourist_user)
          (map (\<lambda>u. if tu_id u = tu_id tourist_user then ?new else u) (tourist_users db))
        = Some ?new"
    using assms idn unfolding crud_get_tourist_user_def by (rule find_key_replace)
  have u: "update_my_info commit_error db tourist_user new_name new_surname new_email
             new_img_profile new_state_id new_telephone
           = (case commit_error ?db of None \<Rightarrow> Inr (True, ?db) | Some e \<Rightarrow> Inl (handle e))"
    using assms idn by (simp add: update_my_info_def crud_update_def Let_def)
  show "ok \<and> commit_error db' = None
             \<and> crud_get_tourist_user db' (tu_id tourist_user) = Some ?new"
    if "update_my_info commit_error db tourist_user new_name new_surname new_email
           new_img_profile new_state_id new_telephone = Inr (ok, db')"
    using that f unfolding u by (auto simp: crud_get_tourist_user_def split: option.splits)
  show "update_my_info commit_error db tourist_user new_name new_surname new_email
               new_img_profile new_state_id new_telephone = Inl (handle e)"
    if "commit_error ?db = Some e"
    using that unfolding u by simp
qed

lemma discovery_update_commit:
  assumes "crud_get_discovery db discovery_id = Some row"
  shows "discovery_update commit_error db discovery_id discovery_data = Inr (ok, db')
         \<Longrightarrow> ok \<and> commit_error db' = None
             \<and> crud_get_discovery db' discovery_id
                 = Some (discovery_update_fields row discovery_data)"
    and "commit_error (flush_discovery db (discovery_update_fields row discovery_data)) = Some e
         \<Longrightarrow> discovery_update commit_error db discovery_id discovery_data = Inl (handle e)"
proof -
  let ?new = "discovery_update_fields row discovery_data"
  have k: "dis_id row = discovery_id"
    using assms unfolding crud_get_discovery_def by (rule find_key_Some)
  have idn: "dis_id ?new = discovery_id"
    using k by (simp add: discovery_update_fields_id)
  have f: "find (\<lambda>u. dis_id u = discovery_id)
          (map (\<lambda>u. if dis_id u = discovery_id then ?new else u) (discoveries db))
        = Some ?new"
    using assms idn unfolding crud_get_discovery_def by (rule find_key_replace)
  have u: "discovery_update commit_error db discovery_id discovery_data
           = (case commit_error (flush_discovery db ?new) of
                None \<Rightarrow> Inr (True, flush_discovery db ?new)
              | Some e \<Rightarrow> Inl (handle e))"
    using assms by (simp add: discovery_update_def crud_update_def Let_def)
  show "ok \<and> commit_error db' = None
             \<and> crud_get_discovery db' discovery_id = Some ?new"
    if "discovery_update commit_error db discovery_id discovery_data = Inr (ok, db')"
    using that f idn unfolding u
    by (auto simp: crud_get_discovery_def flush_discovery_def split: option.splits)
  show "discovery_update commit_error db discovery_id discovery_data = Inl (handle e)"
    if "commit_error (flush_discovery db ?new) = Some e"
    using that unfolding u by simp
qed

text \<open>A profile update that takes the email of another tourist is refused by the store.\<close>

lemma update_my_info_duplicate_email:
  "update_my_info sample_commit_error sample_db (sample_tourist 5 1)
     [] [] ''bea@example.org'' [] None []
   = Inl (HTTPException 400
            ''Value already registered. (Value can be an email a title or a popup message text).'')"
  by (simp add: update_my_info_def update_my_info_fields_def crud_update_def handle_def
        crud_get_tourist_user_def sample_commit_error_def sample_db_def sample_tourist_def
        sublist_Cons_right)

text \<open>
  C2, as stated, at a concrete update: the payload's \<open>coordinate_gps\<close> is the non-empty
  text \<open>13.0 42.0\<close>, and the merged row does not hold that text but the point literal
  built from it, both in the merged row and in the row read back from a store that
  accepted the update.
\<close>

theorem partial_update_counterexample:
  "dbase_coordinate_gps (sample_discovery_base (Some ''13.0 42.0'') 0) = Some ''13.0 42.0''
   \<and> ''13.0 42.0'' \<noteq> []
   \<and> dis_coordinate_gps
        (discovery_update_fields (sample_discovery 1 2 1)
           (sample_discovery_base (Some ''13.0 42.0'') 0)) = ''POINT (13.0 42.0)''
   \<and> ''POINT (13.0 42.0)'' \<noteq> ''13.0 42.0''
   \<and> (case discovery_update sample_commit_error sample_db 1
              (sample_discovery_base (Some ''13.0 42.0'') 0) of
         Inr r \<Rightarrow> map_option dis_coordinate_gps (crud_get_discovery (snd r) 1)
                    = Some ''POINT (13.0 42.0)''
       | Inl e \<Rightarrow> False)"
  by (simp add: discovery_update_def discovery_update_fields_def crud_update_def
        flush_discovery_def crud_get_discovery_def sample_commit_error_def sample_db_def
        sample_discovery_def sample_discovery_base_def sample_tourist_def)

text \<open>
  C2, amended. In the merge of a tourist profile update every field whose new value is
  truthy is overwritten with that value, and every field whose new value is falsy (an
  empty text, an absent or zero \<open>state_id\<close>) is left as it was; id and password are
  never touched. In the merge of a discovery update the same holds for title,
  description, preview image, image paths, \<open>state_id\<close> and \<open>kind_id\<close>; a truthy
  \<open>coordinate_gps\<close> sets the coordinate to the point literal \<open>POINT (payload)\<close> and a
  falsy one leaves it; falsy \<open>video_paths\<close> and a falsy \<open>address\<close> leave the stored
  values.
\<close>

theorem partial_update_merge:
  "(let new = update_my_info_fields old new_name new_surname new_email new_img_profile
                new_state_id new_telephone
    in tu_name new = (if new_name \<noteq> [] then new_name else tu_name old)
     \<and> tu_surname new = (if new_surname \<noteq> [] then new_surname else tu_surname old)
     \<and> tu_email new = (if new_email \<noteq> [] then new_email else tu_email old)
     \<and> tu_img_profile new
         = (if new_img_profile \<noteq> [] then new_img_profile else tu_img_profile old)
     \<and> tu_state_id new
         = (case new_state_id of
              Some n \<Rightarrow> if n \<noteq> 0 then n else tu_state_id old
            | None \<Rightarrow> tu_state_id old)
     \<and> tu_telephone new = (if new_telephone \<noteq> [] then new_telephone else tu_telephone old)
     \<and> tu_id new = tu_id old
     \<and> tu_password new = tu_password old)
   \<and> (let d = discovery_update_fields discovery discovery_data
      in dis_title d = (if dbase_title discovery_data \<noteq> [] then dbase_title discovery_data
                        else dis_title discovery)
       \<and> dis_description d
           = (if dbase_description discovery_data \<noteq> [] then dbase_description discovery_data
              else dis_description discovery)
       \<and> dis_img_preview_path d
           = (if dbase_img_preview_path discovery_data \<noteq> []
              then dbase_img_preview_path discovery_data
              else dis_img_preview_path discovery)
       \<and> dis_img_paths d
           = (if dbase_img_paths discovery_data \<noteq> [] then dbase_img_paths discovery_data
              else dis_img_paths discovery)
       \<and> dis_state_id d
           = (if dbase_state_id discovery_data \<noteq> 0 then dbase_state_id discovery_data
              else dis_state_id discovery)
       \<and> dis_kind_id d
           = (if dbase_kind_id discovery_data \<noteq> 0 then dbase_kind_id discovery_data
              else dis_kind_id discovery)
       \<and> dis_coordinate_gps d
           = (case dbase_coordinate_gps discovery_data of
                Some s \<Rightarrow> if s \<noteq> [] then ''POINT ('' @ s @ '')''
                          else dis_coordinate_gps discovery
              | None \<Rightarrow> dis_coordinate_gps discovery)
       \<and> (dbase_video_paths discovery_data = [] \<longrightarrow>
            dis_video_paths d = dis_video_paths discovery)
       \<and> (dbase_address discovery_data = [] \<longrightarrow> dis_address d = dis_address discovery)
       \<and> dis_id d = dis_id discovery)"
proof (intro conjI)
  show "let new = update_my_info_fields old new_name new_surname new_email new_img_profile
                new_state_id new_telephone
    in tu_name new = (if new_name \<noteq> [] then new_name else tu_name old)
     \<and> tu_surname new = (if new_surname \<noteq> [] then new_surname else tu_surname old)
     \<and> tu_email new = (if new_email \<noteq> [] then new_email else tu_email old)
     \<and> tu_img_profile new
         = (if new_img_profile \<noteq> [] then new_img_profile else tu_img_profile old)
     \<and> tu_state_id new
         = (case new_state_id of
              Some n \<Rightarrow> if n \<noteq> 0 then n else tu_state_id old
            | None \<Rightarrow> tu_state_id old)
     \<and> tu_telephone new = (if new_telephone \<noteq> [] then new_telephone else tu_telephone old)
     \<and> tu_id new = tu_id old
     \<and> tu_password new = tu_password old"
    by (simp add: update_my_info_fields_def Let_def split: option.split)
  show "let d = discovery_update_fields discovery discovery_data
      in dis_title d = (if dbase_title discovery_data \<noteq> [] then dbase_title discovery_data
                        else dis_title discovery)
       \<and> dis_description d
           = (if dbase_description discovery_data \<noteq> [] then dbase_description discovery_data
              else dis_description discovery)
       \<and> dis_img_preview_path d
           = (if dbase_img_preview_path discovery_data \<noteq> []
              then dbase_img_preview_path discovery_data
              else dis_img_preview_path discovery)
       \<and> dis_img_paths d
           = (if dbase_img_paths discovery_data \<noteq> [] then dbase_img_paths discovery_data
              else dis_img_paths discovery)
       \<and> dis_state_id d
           = (if dbase_state_id discovery_data \<noteq> 0 then dbase_state_id discovery_data
              else dis_state_id discovery)
       \<and> dis_kind_id d
           = (if dbase_kind_id discovery_data \<noteq> 0 then dbase_kind_id discovery_data
              else dis_kind_id discovery)
       \<and> dis_coordinate_gps d
           = (case dbase_coordinate_gps discovery_data of
                Some s \<Rightarrow> if s \<noteq> [] then ''POINT ('' @ s @ '')''
                          else dis_coordinate_gps discovery
              | None \<Rightarrow> dis_coordinate_gps discovery)
       \<and> (dbase_video_paths discovery_data = [] \<longrightarrow>
            dis_video_paths d = dis_video_paths discovery)
       \<and> (dbase_address discovery_data = [] \<longrightarrow> dis_address d = dis_address discovery)
       \<and> dis_id d = dis_id discovery"
    by (simp add: discovery_update_fields_def Let_def split: option.split)
qed

theorem partial_update_merge_witness:
  "update_my_info_fields (sample_tourist 5 1) ''Eva'' [] [] [] (Some 2) []
       = (sample_tourist 5 2)\<lparr> tu_name := ''Eva'' \<rparr>
   \<and> dbase_video_paths (sample_discovery_base (Some ''13.0 42.0'') 0) = []
   \<and> dbase_address (sample_discovery_base (Some ''13.0 42.0'') 0) = []
   \<and> discovery_update_fields (sample_discovery 1 2 1)
        (sample_discovery_base (Some ''13.0 42.0'') 0)
       = (sample_discovery 1 4 1)
           \<lparr> dis_title := ''Harbour'', dis_description := ''Old harbour'',
             dis_img_preview_path := ''harbour.jpg'', dis_img_paths := [''h1.jpg''],
             dis_coordinate_gps := ''POINT (13.0 42.0)'' \<rparr>"
  using partial_update_merge [of "sample_tourist 5 1" "''Eva''" "[]" "[]" "[]" "Some 2" "[]"
          "sample_discovery 1 2 1" "sample_discovery_base (Some ''13.0 42.0'') 0"]
  by (simp add: update_my_info_fields_def discovery_update_fields_def
        sample_tourist_def sample_discovery_def sample_discovery_base_def)

section \<open>The guard on \<open>state_id\<close>\<close>

text \<open>
  C3. The three create handlers at \<open>state_id = 0\<close>, on an empty store: the guard
  \<open>state_id < 0 or state_id > 2\<close> lets the request through and a row with
  \<open>state_id = 0\<close> is stored. At \<open>state_id = 3\<close> the signup fails with status 400 and
  the message of the source.
\<close>

theorem create_accepts_state_id_zero:
  "register_me sample_hash_password empty_db (sample_signup 0)
     = Inr (True, empty_db\<lparr> tourist_users :=
         [\<lparr> tu_id = 1, tu_name = ''Dora'', tu_surname = ''Bianchi'',
            tu_email = ''dora@example.org'', tu_password = ''hash-of-secret'',
            tu_telephone = ''777'', tu_img_profile = ''dora.png'', tu_state_id = 0 \<rparr>] \<rparr>)
   \<and> experience_create empty_db (sample_experience_base 0)
     = Inr (True, empty_db\<lparr> experiences :=
         [\<lparr> exp_id = 1, exp_title = ''Night walk'', exp_description = ''City centre by night'',
            exp_difficulty_id = 2, exp_price = [(''amount'', 15)], exp_duration = (2, 0, 0),
            exp_img_preview_path = ''walk.jpg'', exp_img_paths = [], exp_state_id = 0 \<rparr>] \<rparr>)
   \<and> discovery_create empty_db (sample_discovery_base (Some ''12.5 41.9'') 0)
     = Inr (True, empty_db\<lparr> discoveries :=
         [\<lparr> dis_id = 1, dis_title = ''Harbour'', dis_description = ''Old harbour'',
            dis_img_preview_path = ''harbour.jpg'', dis_img_paths = [''h1.jpg''],
            dis_video_paths = [], dis_coordinate_gps = ''POINT (12.5 41.9)'',
            dis_address = '''', dis_kind_id = 4, dis_state_id = 0 \<rparr>] \<rparr>)
   \<and> register_me sample_hash_password empty_db (sample_signup 3)
     = Inl (HTTPException 400 ''state_id must be either 1 or 2.'')"
  by (simp add: register_me_def experience_create_def discovery_create_def
        crud_create_tourist_user_def crud_create_experience_def crud_create_discovery_def
        new_id_def empty_db_def sample_signup_def sample_experience_base_def
        sample_discovery_base_def sample_hash_password_def)

section \<open>Authorization and the persisted record\<close>

text \<open>
  C4, as stated, at a concrete request: a token with the role Tourist whose subject
  has no tourist row, and one whose row is deactivated (\<open>state_id = 2\<close>), both pass
  the host-or-tourist evaluator and the any-of-three evaluator.
\<close>

theorem priviledge_ignores_record_counterexample:
  "sample_is_jwt_valid ''tourist-9'' = Some \<lparr> tp_user_id = 9, tp_role = ''Tourist'' \<rparr>
   \<and> crud_get_tourist_user sample_db 9 = None
   \<and> get_tourist_host_priviledge sample_is_jwt_valid ''tourist-9'' = Inr True
   \<and> get_tourist_host_admin_priviledge sample_is_jwt_valid ''tourist-9'' = Inr ''Tourist''
   \<and> sample_is_jwt_valid ''tourist-6'' = Some \<lparr> tp_user_id = 6, tp_role = ''Tourist'' \<rparr>
   \<and> map_option tu_state_id (crud_get_tourist_user sample_db 6) = Some 2
   \<and> get_tourist_host_priviledge sample_is_jwt_valid ''tourist-6'' = Inr True
   \<and> get_tourist_host_admin_priviledge sample_is_jwt_valid ''tourist-6'' = Inr ''Tourist''"
  by (simp add: sample_is_jwt_valid_def crud_get_tourist_user_def sample_db_def
        sample_tourist_def get_tourist_host_priviledge_def
        get_tourist_host_admin_priviledge_def roles_def)

text \<open>
  C4, amended. The single-role evaluators resolve the record: for a token with the
  role Tourist, \<open>get_current_tourist\<close> fails with 404 when the subject has no tourist
  row, fails with 401 "This user has been deactivated." when the row's \<open>state_id\<close> is
  not 1, and returns the row otherwise; it returns an identity only for a Tourist
  token whose row exists with \<open>state_id = 1\<close>. The same holds for \<open>get_current_host\<close>
  and the role Host. The host-or-tourist and the any-of-three evaluators decide on
  the role of the token alone.
\<close>

theorem current_user_needs_active_record:
  "(\<forall>p. is_jwt_valid token = Some p \<and> tp_role p = ''Tourist'' \<longrightarrow>
      get_current_tourist is_jwt_valid db token =
        (case crud_get_tourist_user db (tp_user_id p) of
           None \<Rightarrow> Inl (HTTPException 404 ''Tourist not found'')
         | Some u \<Rightarrow> if tu_state_id u = 1 then Inr u
                     else Inl (HTTPException 401 ''This user has been deactivated.'')))
   \<and> (\<forall>u. get_current_tourist is_jwt_valid db token = Inr u \<longrightarrow>
         (\<exists>p. is_jwt_valid token = Some p \<and> tp_role p = ''Tourist''
            \<and> crud_get_tourist_user db (tp_user_id p) = Some u \<and> tu_state_id u = 1))
   \<and> (\<forall>p. is_jwt_valid token = Some p \<and> tp_role p = ''Host'' \<longrightarrow>
      get_current_host is_jwt_valid db token =
        (case crud_get_host_user db (tp_user_id p) of
           None \<Rightarrow> Inl (HTTPException 404 ''Host not found'')
         | Some u \<Rightarrow> if hu_state_id u = 1 then Inr u
                     else Inl (HTTPException 401 ''This user has been deactivated.'')))
   \<and> (\<forall>u. get_current_host is_jwt_valid db token = Inr u \<longrightarrow>
         (\<exists>p. is_jwt_valid token = Some p \<and> tp_role p = ''Host''
            \<and> crud_get_host_user db (tp_user_id p) = Some u \<and> hu_state_id u = 1))
   \<and> (\<forall>p. is_jwt_valid token = Some p \<and> (tp_role p = ''Host'' \<or> tp_role p = ''Tourist'') \<longrightarrow>
         get_tourist_host_priviledge is_jwt_valid token = Inr True
       \<and> get_tourist_host_admin_priviledge is_jwt_valid token = Inr (tp_role p))"
proof -
  have t1: "get_current_tourist is_jwt_valid db token =
        (case crud_get_tourist_user db (tp_user_id p) of
           None \<Rightarrow> Inl (HTTPException 404 ''Tourist not found'')
         | Some u \<Rightarrow> if tu_state_id u = 1 then Inr u
                     else Inl (HTTPException 401 ''This user has been deactivated.''))"
    if "is_jwt_valid token = Some p" "tp_role p = ''Tourist''" for p
    using that by (simp add: get_current_tourist_def roles_def)
  have t2: "\<exists>p. is_jwt_valid token = Some p \<and> tp_role p = ''Tourist''
            \<and> crud_get_tourist_user db (tp_user_id p) = Some u \<and> tu_state_id u = 1"
    if "get_current_tourist is_jwt_valid db token = Inr u" for u
    using that by (auto simp: get_current_tourist_def roles_def split: option.splits if_splits)
  have h1: "get_current_host is_jwt_valid db token =
        (case crud_get_host_user db (tp_user_id p) of
           None \<Rightarrow> Inl (HTTPException 404 ''Host not found'')
         | Some u \<Rightarrow> if hu_state_id u = 1 then Inr u
                     else Inl (HTTPException 401 ''This user has been deactivated.''))"
    if "is_jwt_valid token = Some p" "tp_role p = ''Host''" for p
    using that by (simp add: get_current_host_def roles_def)
  have h2: "\<exists>p. is_jwt_valid token = Some p \<and> tp_role p = ''Host''
            \<and> crud_get_host_user db (tp_user_id p) = Some u \<and> hu_state_id u = 1"
    if "get_current_host is_jwt_valid db token = Inr u" for u
    using that by (auto simp: get_current_host_def roles_def split: option.splits if_splits)
  have m: "get_tourist_host_priviledge is_jwt_valid token = Inr True
       \<and> get_tourist_host_admin_priviledge is_jwt_valid token = Inr (tp_role p)"
    if "is_jwt_valid token = Some p" "tp_role p = ''Host'' \<or> tp_role p = ''Tourist''" for p
    using that
    by (auto simp: get_tourist_host_priviledge_def get_tourist_host_admin_priviledge_def roles_def)
  show ?thesis
    using t1 t2 h1 h2 m by (intro conjI allI impI) blast+
qed

theorem current_user_needs_active_record_witness:
  "sample_is_jwt_valid ''tourist-5'' = Some \<lparr> tp_user_id = 5, tp_role = ''Tourist'' \<rparr>
   \<and> get_current_tourist sample_is_jwt_valid sample_db ''tourist-5'' = Inr (sample_tourist 5 1)
   \<and> get_current_tourist sample_is_jwt_valid sample_db ''tourist-6''
       = Inl (HTTPException 401 ''This user has been deactivated.'')
   \<and> get_current_tourist sample_is_jwt_valid sample_db ''tourist-9''
       = Inl (HTTPException 404 ''Tourist not found'')
   \<and> get_current_host sample_is_jwt_valid sample_db ''host-1'' = Inr (sample_host 1 1)
   \<and> get_current_host sample_is_jwt_valid sample_db ''host-2''
       = Inl (HTTPException 401 ''This user has been deactivated.'')
   \<and> get_current_host sample_is_jwt_valid sample_db ''host-9''
       = Inl (HTTPException 404 ''Host not found'')
   \<and> get_tourist_host_priviledge sample_is_jwt_valid ''host-9'' = Inr True"
  using current_user_needs_active_record [of sample_is_jwt_valid "''tourist-5''" sample_db]
        current_user_needs_active_record [of sample_is_jwt_valid "''host-9''" sample_db]
  by (simp add: sample_is_jwt_valid_def get_current_tourist_def get_current_host_def
        get_tourist_host_priviledge_def crud_get_tourist_user_def crud_get_host_user_def
        sample_db_def sample_tourist_def sample_host_def roles_def)

section \<open>Decoding an unparseable geometry\<close>

text \<open>
  C5. The decode path on a text that is not hexadecimal, and on one of odd length,
  whatever the geometry parser is: \<open>ewkb_to_wkt\<close> catches the exception and returns
  \<open>None\<close>, and \<open>extract_coordinates\<close> raises \<open>TypeError\<close> on it.
\<close>

theorem decode_unparseable_raises:
  "ewkb_to_wkt loads_wkt ''zz'' = None
   \<and> extract_coordinates (ewkb_to_wkt loads_wkt ''zz'') = Inl TypeError
   \<and> ewkb_to_wkt loads_wkt ''0101000'' = None
   \<and> extract_coordinates (ewkb_to_wkt loads_wkt ''0101000'') = Inl TypeError"
  by (simp add: ewkb_to_wkt_def extract_coordinates_def hex_digit_def)

end
